theory Spec2Isabelle
  imports Complex_Main "HOL-Library.Word"
begin

section \<open>Numbers, vectors and matrices\<close>

text \<open>
  The C++ type \<^verbatim>\<open>double\<close> is modelled by \<^typ>\<open>real\<close>: every arithmetic operation is
  exact, so rounding, infinities and NaN are outside the model. All theorems below
  are statements about the formulas the code evaluates, read over the reals.

  Modelled from the spec: \<^verbatim>\<open>FGColumnVector3\<close> and \<^verbatim>\<open>FGMatrix33\<close>
  (math/FGColumnVector3.h and math/FGMatrix33.h are not among the sources), the
  spec's vectors and 3x3 matrices: three and nine doubles. Elements are addressed
  from 1, as the comments of FGPropagate.h say ("The vector is 1-based").
\<close>

record FGColumnVector3 =
  d1 :: real
  d2 :: real
  d3 :: real

definition FGColumnVector3_of :: "real \<Rightarrow> real \<Rightarrow> real \<Rightarrow> FGColumnVector3" where
  "FGColumnVector3_of X Y Z = \<lparr>d1 = X, d2 = Y, d3 = Z\<rparr>"

text \<open>
  Modelled from the spec: \<^verbatim>\<open>operator*(double, FGColumnVector3)\<close>, the scalar times each
  element.
\<close>

definition scale :: "real \<Rightarrow> FGColumnVector3 \<Rightarrow> FGColumnVector3" where
  "scale k v = \<lparr>d1 = k * d1 v, d2 = k * d2 v, d3 = k * d3 v\<rparr>"

text \<open>Modelled from the spec: \<^verbatim>\<open>FGColumnVector3::Magnitude\<close>, the Euclidean length.\<close>

definition Magnitude :: "FGColumnVector3 \<Rightarrow> real" where
  "Magnitude v = sqrt (d1 v * d1 v + d2 v * d2 v + d3 v * d3 v)"

record FGMatrix33 =
  m11 :: real
  m12 :: real
  m13 :: real
  m21 :: real
  m22 :: real
  m23 :: real
  m31 :: real
  m32 :: real
  m33 :: real

text \<open>The nine-argument constructor takes the entries row by row.\<close>

definition FGMatrix33_of ::
  "real \<Rightarrow> real \<Rightarrow> real \<Rightarrow> real \<Rightarrow> real \<Rightarrow> real \<Rightarrow> real \<Rightarrow> real \<Rightarrow> real \<Rightarrow> FGMatrix33" where
  "FGMatrix33_of e11 e12 e13 e21 e22 e23 e31 e32 e33 =
     \<lparr>m11 = e11, m12 = e12, m13 = e13,
      m21 = e21, m22 = e22, m23 = e23,
      m31 = e31, m32 = e32, m33 = e33\<rparr>"

text \<open>Modelled from the spec: \<^verbatim>\<open>FGMatrix33::InitMatrix()\<close>, which clears every entry.\<close>

definition InitMatrix :: FGMatrix33 where
  "InitMatrix = FGMatrix33_of 0 0 0 0 0 0 0 0 0"

section \<open>FGMassBalance.h\<close>

subsection \<open>Point masses and their shape inertia\<close>

datatype esShape = esUnspecified | esTube | esCylinder | esSphere | esBall

record PointMass =
  eShapeType :: esShape
  Location :: FGColumnVector3
  Weight :: real
  Radius :: real
  Length :: real
  Name :: string
  mPMInertia :: FGMatrix33

text \<open>
  The constructor \<^verbatim>\<open>PointMass(w, vXYZ)\<close> leaves \<^verbatim>\<open>eShapeType\<close> and \<^verbatim>\<open>Name\<close> to the
  caller, so both are arguments here.
\<close>

definition PointMass_of :: "real \<Rightarrow> FGColumnVector3 \<Rightarrow> esShape \<Rightarrow> string \<Rightarrow> PointMass" where
  "PointMass_of w vXYZ st nm =
     \<lparr>eShapeType = st, Location = vXYZ, Weight = w, Radius = 0, Length = 0,
      Name = nm, mPMInertia = InitMatrix\<rparr>"

text \<open>
  The three assignment forms used in the switch: \<^verbatim>\<open>mPMInertia(k,k) = e\<close> for
  \<open>k = 1, 2, 3\<close>.
\<close>

definition set11 :: "real \<Rightarrow> PointMass \<Rightarrow> PointMass" where
  "set11 e pm = pm\<lparr>mPMInertia := (mPMInertia pm)\<lparr>m11 := e\<rparr>\<rparr>"

definition set22 :: "real \<Rightarrow> PointMass \<Rightarrow> PointMass" where
  "set22 e pm = pm\<lparr>mPMInertia := (mPMInertia pm)\<lparr>m22 := e\<rparr>\<rparr>"

definition set33 :: "real \<Rightarrow> PointMass \<Rightarrow> PointMass" where
  "set33 e pm = pm\<lparr>mPMInertia := (mPMInertia pm)\<lparr>m33 := e\<rparr>\<rparr>"

text \<open>
  The statement lists under each \<^verbatim>\<open>case\<close> label, in source order. Each later
  statement reads the matrix the earlier ones wrote. \<open>slugtolb\<close> is a constant of
  FGJSBBase and is an argument here.
\<close>

definition case_esTube :: "real \<Rightarrow> PointMass \<Rightarrow> PointMass" where
  "case_esTube slugtolb pm =
     (let pm1 = set11 ((Weight pm / slugtolb) * Radius pm * Radius pm) pm;
          pm2 = set22 ((Weight pm1 / (slugtolb * 12))
                         * (6 * Radius pm1 * Radius pm1 + Length pm1 * Length pm1)) pm1
      in set33 (m22 (mPMInertia pm2)) pm2)"

definition case_esCylinder :: "real \<Rightarrow> PointMass \<Rightarrow> PointMass" where
  "case_esCylinder slugtolb pm =
     (let pm1 = set11 ((Weight pm / (slugtolb * 2)) * Radius pm * Radius pm) pm;
          pm2 = set22 ((Weight pm1 / (slugtolb * 12))
                         * (3 * Radius pm1 * Radius pm1 + Length pm1 * Length pm1)) pm1
      in set33 (m22 (mPMInertia pm2)) pm2)"

definition case_esSphere :: "real \<Rightarrow> PointMass \<Rightarrow> PointMass" where
  "case_esSphere slugtolb pm =
     (let pm1 = set11 ((Weight pm / (slugtolb * 3)) * Radius pm * Radius pm * 2) pm;
          pm2 = set22 (m11 (mPMInertia pm1)) pm1
      in set33 (m11 (mPMInertia pm2)) pm2)"

definition case_esBall :: "real \<Rightarrow> PointMass \<Rightarrow> PointMass" where
  "case_esBall slugtolb pm =
     (let pm1 = set11 ((Weight pm / (slugtolb * 5)) * Radius pm * Radius pm * 2) pm;
          pm2 = set22 (m11 (mPMInertia pm1)) pm1
      in set33 (m11 (mPMInertia pm2)) pm2)"

text \<open>
  The switch. \<^verbatim>\<open>esTube\<close>, \<^verbatim>\<open>esCylinder\<close> and \<^verbatim>\<open>esBall\<close> end in \<^verbatim>\<open>break\<close>; the
  \<^verbatim>\<open>esSphere\<close> label has none, so control runs on into the statements of \<^verbatim>\<open>esBall\<close>.
\<close>

definition CalculateShapeInertia :: "real \<Rightarrow> PointMass \<Rightarrow> PointMass" where
  "CalculateShapeInertia slugtolb pm =
     (case eShapeType pm of
        esTube \<Rightarrow> case_esTube slugtolb pm
      | esCylinder \<Rightarrow> case_esCylinder slugtolb pm
      | esSphere \<Rightarrow> case_esBall slugtolb (case_esSphere slugtolb pm)
      | esBall \<Rightarrow> case_esBall slugtolb pm
      | esUnspecified \<Rightarrow> pm)"

subsection \<open>Inertia of a point mass about the reference point\<close>

text \<open>
  \<^verbatim>\<open>StructuralToBody\<close> is declared in the header and defined in FGMassBalance.cpp;
  it is an argument of the model.
\<close>

definition GetPointmassInertia ::
  "(FGColumnVector3 \<Rightarrow> FGColumnVector3) \<Rightarrow> real \<Rightarrow> FGColumnVector3 \<Rightarrow> FGMatrix33" where
  "GetPointmassInertia StructuralToBody slugs r =
     (let v = StructuralToBody r;
          sv = scale slugs v;
          xx = d1 sv * d1 v;
          yy = d2 sv * d2 v;
          zz = d3 sv * d3 v;
          xy = - d1 sv * d2 v;
          xz = - d1 sv * d3 v;
          yz = - d2 sv * d3 v
      in FGMatrix33_of (yy + zz) xy xz
                       xy (xx + zz) yz
                       xz yz (xx + yy))"

section \<open>FGPropagate.h\<close>

subsection \<open>The vehicle state\<close>

text \<open>
  Modelled from the spec: \<^verbatim>\<open>FGLocation\<close> (math/FGLocation.h is not among the
  sources). The spec describes it as a geocentric position; the functions modelled
  here read it only through \<^verbatim>\<open>GetRadius()\<close>, \<^verbatim>\<open>GetLongitude()\<close> and
  \<^verbatim>\<open>GetLatitude()\<close>, so the model keeps what those three accessors return.
\<close>

record FGLocation =
  loc_Radius :: real
  loc_Longitude :: real
  loc_Latitude :: real

text \<open>
  Modelled from the spec: \<^verbatim>\<open>FGQuaternion\<close> (math/FGQuaternion.h is not among the
  sources), an orientation quaternion: four doubles.
\<close>

record FGQuaternion =
  q1 :: real
  q2 :: real
  q3 :: real
  q4 :: real

record VehicleState =
  vLocation :: FGLocation
  vUVW :: FGColumnVector3
  vPQR :: FGColumnVector3
  vPQRi :: FGColumnVector3
  qAttitudeLocal :: FGQuaternion
  qAttitudeECI :: FGQuaternion
  vInertialVelocity :: FGColumnVector3
  vInertialPosition :: FGColumnVector3
  dqPQRdot :: "FGColumnVector3 list"
  dqUVWdot :: "FGColumnVector3 list"
  dqInertialVelocity :: "FGColumnVector3 list"
  dqQtrndot :: "FGQuaternion list"

text \<open>
  The member functions below read and write only the member \<^verbatim>\<open>VState\<close> of
  \<^verbatim>\<open>FGPropagate\<close>, so they are functions of a \<^typ>\<open>VehicleState\<close>.
\<close>

definition GetRadius :: "VehicleState \<Rightarrow> real" where
  "GetRadius VState =
     (if loc_Radius (vLocation VState) = 0 then 1.0
      else loc_Radius (vLocation VState))"

definition GetLatitude :: "VehicleState \<Rightarrow> real" where
  "GetLatitude VState = loc_Latitude (vLocation VState)"

text \<open>
  \<^verbatim>\<open>std::deque::resize(n, val)\<close>: keep the first \<open>n\<close> elements, or append copies of
  \<open>val\<close> up to length \<open>n\<close>.
\<close>

definition resize :: "nat \<Rightarrow> 'a \<Rightarrow> 'a list \<Rightarrow> 'a list" where
  "resize n val xs = take n xs @ replicate (n - length xs) val"

text \<open>
  \<^verbatim>\<open>SetVState(VehicleState* vstate)\<close>. The last \<^verbatim>\<open>resize\<close> pads a deque of
  quaternions with a value given as \<^verbatim>\<open>FGColumnVector3(0.0,0.0,0.0)\<close>; the conversion
  \<open>quat_of\<close> from a vector to a quaternion belongs to FGQuaternion.h and is an argument.
\<close>

definition SetVState ::
  "(FGColumnVector3 \<Rightarrow> FGQuaternion) \<Rightarrow> VehicleState \<Rightarrow> VehicleState \<Rightarrow> VehicleState" where
  "SetVState quat_of vstate VState =
     (let V1 = VState\<lparr>vLocation := vLocation vstate\<rparr>;
          V2 = V1\<lparr>vUVW := vUVW vstate\<rparr>;
          V3 = V2\<lparr>vPQR := vPQR vstate\<rparr>;
          V4 = V3\<lparr>qAttitudeLocal := qAttitudeLocal vstate\<rparr>;
          V5 = V4\<lparr>qAttitudeECI := qAttitudeECI vstate\<rparr>;
          V6 = V5\<lparr>dqPQRdot := resize 4 (FGColumnVector3_of 0.0 0.0 0.0) (dqPQRdot V5)\<rparr>;
          V7 = V6\<lparr>dqUVWdot := resize 4 (FGColumnVector3_of 0.0 0.0 0.0) (dqUVWdot V6)\<rparr>;
          V8 = V7\<lparr>dqInertialVelocity :=
                     resize 4 (FGColumnVector3_of 0.0 0.0 0.0) (dqInertialVelocity V7)\<rparr>
      in V8\<lparr>dqQtrndot :=
               resize 4 (quat_of (FGColumnVector3_of 0.0 0.0 0.0)) (dqQtrndot V8)\<rparr>)"

text \<open>
  Modelled from the spec: the assignment \<^verbatim>\<open>v(idx) = val\<close> on a \<^verbatim>\<open>FGColumnVector3\<close>
  (math/FGColumnVector3.h is not among the sources), with \<open>idx\<close> an \<^verbatim>\<open>unsigned int\<close>.
  The three elements are addressed by 1, 2 and 3; any other index would address
  memory outside the vector, which is the result \<open>None\<close>.
\<close>

definition assign_Entry :: "32 word \<Rightarrow> real \<Rightarrow> FGColumnVector3 \<Rightarrow> FGColumnVector3 option" where
  "assign_Entry idx val v =
     (if idx = 1 then Some (v\<lparr>d1 := val\<rparr>)
      else if idx = 2 then Some (v\<lparr>d2 := val\<rparr>)
      else if idx = 3 then Some (v\<lparr>d3 := val\<rparr>)
      else None)"

definition SetPQR :: "32 word \<Rightarrow> real \<Rightarrow> VehicleState \<Rightarrow> VehicleState option" where
  "SetPQR i val VState =
     (if (i \<ge> 1) \<and> (i \<le> 3)
      then map_option (\<lambda>v. VState\<lparr>vPQR := v\<rparr>) (assign_Entry i val (vPQR VState))
      else Some VState)"

definition SetUVW :: "32 word \<Rightarrow> real \<Rightarrow> VehicleState \<Rightarrow> VehicleState option" where
  "SetUVW i val VState =
     (if (i \<ge> 1) \<and> (i \<le> 3)
      then map_option (\<lambda>v. VState\<lparr>vUVW := v\<rparr>) (assign_Entry i val (vUVW VState))
      else Some VState)"

section \<open>FGInertial.cpp\<close>

text \<open>
  \<^verbatim>\<open>FGInertial\<close> derives from \<^verbatim>\<open>FGModel\<close>, whose implementation is not among the
  sources. The base-class part of the object is the field \<open>model\<close> of an arbitrary
  type \<open>'m\<close>, and the four base-class functions that \<^verbatim>\<open>FGInertial\<close> calls are
  arguments, collected in \<open>FGModel_ops\<close>; they act on the base-class part, the
  fields of \<^verbatim>\<open>FGInertial\<close> being its own. The fields \<^verbatim>\<open>a\<close> and \<^verbatim>\<open>b\<close> of the class are
  called \<open>semimajor_a\<close> and \<open>semiminor_b\<close> here.
\<close>

record 'm FGModel_ops =
  FGModel_InitModel :: "'m \<Rightarrow> bool \<times> 'm"
  FGModel_Run :: "'m \<Rightarrow> bool \<times> 'm"
  RunPreFunctions :: "'m \<Rightarrow> 'm"
  RunPostFunctions :: "'m \<Rightarrow> 'm"

record 'm FGInertial =
  model :: 'm
  gAccel :: real
  gAccelReference :: real
  RadiusReference :: real
  RotationRate :: real
  GM :: real
  C2_0 :: real
  J2 :: real
  semimajor_a :: real
  semiminor_b :: real
  earthPosAngle :: real

text \<open>What \<^verbatim>\<open>FGInertial\<close> reads from the executive \<^verbatim>\<open>FDMExec\<close>.\<close>

record FGFDMExec =
  Holding :: bool
  GetDeltaT :: real

text \<open>
  The constructor with the Earth defaults; \<open>base\<close> is the base-class part built by
  \<^verbatim>\<open>FGModel(fgex)\<close>. The calls \<^verbatim>\<open>bind()\<close> and \<^verbatim>\<open>Debug(0)\<close> set no field and are left out.
\<close>

definition FGInertial_new :: "'m \<Rightarrow> 'm FGInertial" where
  "FGInertial_new base =
     (let this = \<lparr>model = base, gAccel = 0, gAccelReference = 0,
                  RadiusReference = 20925650.00,
                  RotationRate = 0.00007292115,
                  GM = 14.07644180 * 10 ^ 15,
                  C2_0 = - 4.84165371736 / 10 ^ 4,
                  J2 = 1.0826266836 / 10 ^ 3,
                  semimajor_a = 20925646.3255,
                  semiminor_b = 20855486.5951,
                  earthPosAngle = 0.0\<rparr>;
          this1 = this\<lparr>gAccelReference := GM this / (RadiusReference this * RadiusReference this)\<rparr>
      in this1\<lparr>gAccel := GM this1 / (RadiusReference this1 * RadiusReference this1)\<rparr>)"

definition FGInertial_InitModel :: "'m FGModel_ops \<Rightarrow> 'm FGInertial \<Rightarrow> bool \<times> 'm FGInertial" where
  "FGInertial_InitModel ops this =
     (let (ok, base) = FGModel_InitModel ops (model this);
          this1 = this\<lparr>model := base\<rparr>
      in if \<not> ok then (False, this1)
         else (True, this1\<lparr>earthPosAngle := 0.0\<rparr>))"

definition GetGAccel :: "'m FGInertial \<Rightarrow> real \<Rightarrow> real" where
  "GetGAccel this r = GM this / (r * r)"

definition FGInertial_Run ::
  "'m FGModel_ops \<Rightarrow> FGFDMExec \<Rightarrow> VehicleState \<Rightarrow> 'm FGInertial \<Rightarrow> bool \<times> 'm FGInertial" where
  "FGInertial_Run ops FDMExec Propagate this =
     (let (nothing_to_do, base) = FGModel_Run ops (model this);
          this1 = this\<lparr>model := base\<rparr>
      in if nothing_to_do then (True, this1)
         else if Holding FDMExec then (False, this1)
         else
           (let this2 = this1\<lparr>model := RunPreFunctions ops (model this1)\<rparr>;
                r = GetRadius Propagate;
                this3 = this2\<lparr>gAccel := GetGAccel this2 r\<rparr>;
                this4 = this3\<lparr>earthPosAngle :=
                           earthPosAngle this3 + GetDeltaT FDMExec * RotationRate this3\<rparr>;
                this5 = this4\<lparr>model := RunPostFunctions ops (model this4)\<rparr>
            in (False, this5)))"

definition GetGravityJ2 :: "'m FGInertial \<Rightarrow> VehicleState \<Rightarrow> FGColumnVector3 \<Rightarrow> FGColumnVector3" where
  "GetGravityJ2 this Propagate position =
     (let r = Magnitude position;
          lat = GetLatitude Propagate;
          sinLat = sin lat;
          preCommon = 1.5 * J2 this * (semimajor_a this / r) * (semimajor_a this / r);
          xy = 1.0 - 5.0 * (sinLat * sinLat);
          z = 3.0 - 5.0 * (sinLat * sinLat);
          GMOverr2 = GM this / (r * r)
      in \<lparr>d1 = - GMOverr2 * ((1.0 + (preCommon * xy)) * d1 position / r),
          d2 = - GMOverr2 * ((1.0 + (preCommon * xy)) * d2 position / r),
          d3 = - GMOverr2 * ((1.0 + (preCommon * z)) * d3 position / r)\<rparr>)"

text \<open>
  A history of the object: the calls made on it, each \<^verbatim>\<open>Run\<close> with the executive
  and the propagation state it finds.
\<close>

datatype call = Call_InitModel | Call_Run FGFDMExec VehicleState

fun do_call :: "'m FGModel_ops \<Rightarrow> call \<Rightarrow> 'm FGInertial \<Rightarrow> 'm FGInertial" where
  "do_call ops Call_InitModel this = snd (FGInertial_InitModel ops this)"
| "do_call ops (Call_Run FDMExec Propagate) this = snd (FGInertial_Run ops FDMExec Propagate this)"

fun do_calls :: "'m FGModel_ops \<Rightarrow> call list \<Rightarrow> 'm FGInertial \<Rightarrow> 'm FGInertial" where
  "do_calls ops [] this = this"
| "do_calls ops (c # cs) this = do_calls ops cs (do_call ops c this)"

fun step_sizes :: "call list \<Rightarrow> real list" where
  "step_sizes [] = []"
| "step_sizes (Call_InitModel # cs) = step_sizes cs"
| "step_sizes (Call_Run FDMExec Propagate # cs) = GetDeltaT FDMExec # step_sizes cs"

fun only_Run :: "call list \<Rightarrow> bool" where
  "only_Run [] = True"
| "only_Run (Call_InitModel # cs) = False"
| "only_Run (Call_Run FDMExec Propagate # cs) = only_Run cs"

section \<open>FGStateSpace.cpp\<close>












section \<open>Example data\<close>

text \<open>A vehicle at rest at geocentric radius \<open>R\<close>, with empty histories.\<close>

definition at_rest :: "real \<Rightarrow> VehicleState" where
  "at_rest R =
     \<lparr>vLocation = \<lparr>loc_Radius = R, loc_Longitude = 0, loc_Latitude = 0\<rparr>,
      vUVW = FGColumnVector3_of 0 0 0,
      vPQR = FGColumnVector3_of 0 0 0,
      vPQRi = FGColumnVector3_of 0 0 0,
      qAttitudeLocal = \<lparr>q1 = 1, q2 = 0, q3 = 0, q4 = 0\<rparr>,
      qAttitudeECI = \<lparr>q1 = 1, q2 = 0, q3 = 0, q4 = 0\<rparr>,
      vInertialVelocity = FGColumnVector3_of 0 0 0,
      vInertialPosition = FGColumnVector3_of 0 0 0,
      dqPQRdot = [], dqUVWdot = [], dqInertialVelocity = [], dqQtrndot = []\<rparr>"

text \<open>The same vehicle with an inertial angular rate, velocity and position.\<close>

definition in_orbit :: "real \<Rightarrow> VehicleState" where
  "in_orbit R =
     (at_rest R)\<lparr>vPQRi := FGColumnVector3_of 1 0 0,
                 vInertialVelocity := FGColumnVector3_of 0 2 0,
                 vInertialPosition := FGColumnVector3_of 0 0 3\<rparr>"

definition identity_quat_of :: "FGColumnVector3 \<Rightarrow> FGQuaternion" where
  "identity_quat_of v = \<lparr>q1 = 1, q2 = 0, q3 = 0, q4 = 0\<rparr>"

text \<open>A base class that always runs and has no state of its own.\<close>

definition always_runs :: "unit FGModel_ops" where
  "always_runs =
     \<lparr>FGModel_InitModel = Pair True, FGModel_Run = Pair False,
      RunPreFunctions = id, RunPostFunctions = id\<rparr>"

text \<open>A base class that reports "nothing to do" on every call.\<close>

definition frozen_model :: "unit FGModel_ops" where
  "frozen_model =
     \<lparr>FGModel_InitModel = Pair True, FGModel_Run = Pair True,
      RunPreFunctions = id, RunPostFunctions = id\<rparr>"





section \<open>Shape inertia of a hollow sphere\<close>

lemma case_esBall_diag:
  "mPMInertia (case_esBall k pm) =
     (mPMInertia pm)\<lparr>m11 := (Weight pm / (k * 5)) * Radius pm * Radius pm * 2,
                      m22 := (Weight pm / (k * 5)) * Radius pm * Radius pm * 2,
                      m33 := (Weight pm / (k * 5)) * Radius pm * Radius pm * 2\<rparr>"
  by (simp add: case_esBall_def set11_def set22_def set33_def Let_def)

lemma case_esSphere_frame:
  "Weight (case_esSphere k pm) = Weight pm"
  "Radius (case_esSphere k pm) = Radius pm"
  "Length (case_esSphere k pm) = Length pm"
  "eShapeType (case_esSphere k pm) = eShapeType pm"
  "Location (case_esSphere k pm) = Location pm"
  "Name (case_esSphere k pm) = Name pm"
  by (simp_all add: case_esSphere_def set11_def set22_def set33_def Let_def)

lemma case_esSphere_diag:
  "mPMInertia (case_esSphere k pm) =
     (mPMInertia pm)\<lparr>m11 := (Weight pm / (k * 3)) * Radius pm * Radius pm * 2,
                      m22 := (Weight pm / (k * 3)) * Radius pm * Radius pm * 2,
                      m33 := (Weight pm / (k * 3)) * Radius pm * Radius pm * 2\<rparr>"
  by (simp add: case_esSphere_def set11_def set22_def set33_def Let_def)

lemma sphere_runs_into_ball:
  "case_esBall k (case_esSphere k pm) = case_esBall k pm"
  by (simp add: case_esBall_def case_esSphere_def set11_def set22_def set33_def Let_def)

text \<open>
  C1. For a point mass whose shape is \<^verbatim>\<open>esSphere\<close> (hollow),
  \<^verbatim>\<open>CalculateShapeInertia\<close> leaves in the three diagonal entries the solid-ball
  value \<open>(2/5) (Weight/slugtolb) Radius\<^sup>2\<close>: the result is the very record the
  \<^verbatim>\<open>esBall\<close> statements alone produce, the off-diagonal entries are untouched, and the
  diagonal equals the hollow-sphere value \<open>(2/3) (Weight/slugtolb) Radius\<^sup>2\<close> only in
  the degenerate case where that value is zero.
\<close>

theorem sphere_inertia_is_ball_inertia:
  assumes "eShapeType pm = esSphere"
  shows "m11 (mPMInertia (CalculateShapeInertia slugtolb pm))
           = (2 / 5) * (Weight pm / slugtolb) * (Radius pm)\<^sup>2
       \<and> m22 (mPMInertia (CalculateShapeInertia slugtolb pm))
           = (2 / 5) * (Weight pm / slugtolb) * (Radius pm)\<^sup>2
       \<and> m33 (mPMInertia (CalculateShapeInertia slugtolb pm))
           = (2 / 5) * (Weight pm / slugtolb) * (Radius pm)\<^sup>2
       \<and> CalculateShapeInertia slugtolb pm = case_esBall slugtolb pm
       \<and> CalculateShapeInertia slugtolb pm
           = (CalculateShapeInertia slugtolb (pm\<lparr>eShapeType := esBall\<rparr>))\<lparr>eShapeType := esSphere\<rparr>
       \<and> (m11 (mPMInertia (CalculateShapeInertia slugtolb pm))
            = (2 / 3) * (Weight pm / slugtolb) * (Radius pm)\<^sup>2
          \<longleftrightarrow> (Weight pm / slugtolb) * (Radius pm)\<^sup>2 = 0)"
proof -
  let ?ball = "(2 / 5) * (Weight pm / slugtolb) * (Radius pm)\<^sup>2"
  have run: "CalculateShapeInertia slugtolb pm = case_esBall slugtolb pm"
    using assms by (simp add: CalculateShapeInertia_def sphere_runs_into_ball)
  have val: "(Weight pm / (slugtolb * 5)) * Radius pm * Radius pm * 2 = ?ball"
    by (simp add: power2_eq_square)
  have e11: "m11 (mPMInertia (case_esBall slugtolb pm)) = ?ball"
    by (simp only: case_esBall_diag val) simp
  have e22: "m22 (mPMInertia (case_esBall slugtolb pm)) = ?ball"
    by (simp only: case_esBall_diag val) simp
  have e33: "m33 (mPMInertia (case_esBall slugtolb pm)) = ?ball"
    by (simp only: case_esBall_diag val) simp
  have ball: "CalculateShapeInertia slugtolb (pm\<lparr>eShapeType := esBall\<rparr>)
                = (case_esBall slugtolb pm)\<lparr>eShapeType := esBall\<rparr>"
    by (simp add: CalculateShapeInertia_def case_esBall_def set11_def set22_def set33_def Let_def)
  have shape: "(case_esBall slugtolb pm)\<lparr>eShapeType := esSphere\<rparr> = case_esBall slugtolb pm"
    using assms by (simp add: case_esBall_def set11_def set22_def set33_def Let_def)
  have same: "case_esBall slugtolb pm
                = (CalculateShapeInertia slugtolb (pm\<lparr>eShapeType := esBall\<rparr>))\<lparr>eShapeType := esSphere\<rparr>"
    by (simp only: ball) (simp add: shape)
  have differ: "?ball = (2 / 3) * (Weight pm / slugtolb) * (Radius pm)\<^sup>2
                \<longleftrightarrow> (Weight pm / slugtolb) * (Radius pm)\<^sup>2 = 0"
    by auto
  show ?thesis
    unfolding run e11 e22 e33 using same differ by blast
qed

theorem sphere_inertia_is_ball_inertia_witness:
  "eShapeType ((PointMass_of 10 (FGColumnVector3_of 0 0 0) esSphere ''tank'')\<lparr>Radius := 3\<rparr>)
     = esSphere
   \<and> m11 (mPMInertia (CalculateShapeInertia 2
          ((PointMass_of 10 (FGColumnVector3_of 0 0 0) esSphere ''tank'')\<lparr>Radius := 3\<rparr>))) = 18
   \<and> 18 \<noteq> (2 / 3) * (10 / 2) * (3::real)\<^sup>2"
proof -
  let ?pm = "(PointMass_of 10 (FGColumnVector3_of 0 0 0) esSphere ''tank'')\<lparr>Radius := 3\<rparr>"
  have h: "eShapeType ?pm = esSphere"
    by (simp add: PointMass_of_def)
  have "m11 (mPMInertia (CalculateShapeInertia 2 ?pm))
          = (2 / 5) * (Weight ?pm / 2) * (Radius ?pm)\<^sup>2"
    using sphere_inertia_is_ball_inertia [OF h, of 2] by (rule conjunct1)
  also have "\<dots> = 18"
    by (simp add: PointMass_of_def)
  finally show ?thesis
    using h by simp
qed

section \<open>Inertia of a point mass\<close>

text \<open>
  C6. \<^verbatim>\<open>GetPointmassInertia(m, r)\<close> takes \<open>r\<close> to the body frame with
  \<^verbatim>\<open>StructuralToBody\<close> and returns the tensor of a point mass \<open>m\<close> at that body-frame
  position \<open>v\<close>: each diagonal entry is \<open>m\<close> times the sum of the squares of the other
  two coordinates of \<open>v\<close>, each off-diagonal entry is minus \<open>m\<close> times the product of
  the two coordinates it is indexed by.
\<close>

theorem GetPointmassInertia_tensor:
  "GetPointmassInertia StructuralToBody m r =
     (let v = StructuralToBody r
      in \<lparr>m11 = m * ((d2 v)\<^sup>2 + (d3 v)\<^sup>2), m12 = - m * (d1 v * d2 v), m13 = - m * (d1 v * d3 v),
          m21 = - m * (d1 v * d2 v), m22 = m * ((d1 v)\<^sup>2 + (d3 v)\<^sup>2), m23 = - m * (d2 v * d3 v),
          m31 = - m * (d1 v * d3 v), m32 = - m * (d2 v * d3 v), m33 = m * ((d1 v)\<^sup>2 + (d2 v)\<^sup>2)\<rparr>)"
  by (simp add: GetPointmassInertia_def FGMatrix33_of_def scale_def Let_def power2_eq_square
      algebra_simps)

section \<open>The vehicle state\<close>

subsection \<open>Bulk assignment\<close>

lemma length_resize: "length (resize n val xs) = n"
  by (simp add: resize_def)

text \<open>
  C2, as stated, fails. \<^verbatim>\<open>SetVState\<close> does not assign \<^verbatim>\<open>vPQRi\<close>,
  \<^verbatim>\<open>vInertialVelocity\<close> or \<^verbatim>\<open>vInertialPosition\<close>: called on a vehicle at rest with a
  state whose three inertial fields are not zero, it leaves all three at zero.
\<close>

theorem SetVState_leaves_inertial_fields:
  "vPQRi (SetVState identity_quat_of (in_orbit 1) (at_rest 1)) \<noteq> vPQRi (in_orbit 1)
   \<and> vInertialVelocity (SetVState identity_quat_of (in_orbit 1) (at_rest 1))
        \<noteq> vInertialVelocity (in_orbit 1)
   \<and> vInertialPosition (SetVState identity_quat_of (in_orbit 1) (at_rest 1))
        \<noteq> vInertialPosition (in_orbit 1)"
  by (simp add: SetVState_def in_orbit_def at_rest_def FGColumnVector3_of_def Let_def)

text \<open>
  What \<^verbatim>\<open>SetVState\<close> does to the four derivative histories: each is its old content
  cut or padded to exactly four entries. The three histories of vectors are padded
  with the zero vector, the history of quaternions with whatever quaternion the
  conversion yields for \<^verbatim>\<open>FGColumnVector3(0.0,0.0,0.0)\<close>.
\<close>

lemma SetVState_histories:
  "dqPQRdot (SetVState quat_of s VState)
     = resize 4 (FGColumnVector3_of 0 0 0) (dqPQRdot VState)
   \<and> dqUVWdot (SetVState quat_of s VState)
        = resize 4 (FGColumnVector3_of 0 0 0) (dqUVWdot VState)
   \<and> dqInertialVelocity (SetVState quat_of s VState)
        = resize 4 (FGColumnVector3_of 0 0 0) (dqInertialVelocity VState)
   \<and> dqQtrndot (SetVState quat_of s VState)
        = resize 4 (quat_of (FGColumnVector3_of 0 0 0)) (dqQtrndot VState)
   \<and> length (dqPQRdot (SetVState quat_of s VState)) = 4
   \<and> length (dqUVWdot (SetVState quat_of s VState)) = 4
   \<and> length (dqInertialVelocity (SetVState quat_of s VState)) = 4
   \<and> length (dqQtrndot (SetVState quat_of s VState)) = 4"
  by (simp add: SetVState_def Let_def length_resize)

text \<open>
  C2, amended. After \<^verbatim>\<open>SetVState(s)\<close> the five fields \<^verbatim>\<open>vLocation\<close>, \<^verbatim>\<open>vUVW\<close>,
  \<^verbatim>\<open>vPQR\<close>, \<^verbatim>\<open>qAttitudeLocal\<close> and \<^verbatim>\<open>qAttitudeECI\<close> equal those of \<open>s\<close>; the fields
  \<^verbatim>\<open>vPQRi\<close>, \<^verbatim>\<open>vInertialVelocity\<close> and \<^verbatim>\<open>vInertialPosition\<close> are not assigned and
  keep the values they had before the call.
\<close>

theorem SetVState_copies_five_fields:
  "vLocation (SetVState quat_of s VState) = vLocation s
   \<and> vUVW (SetVState quat_of s VState) = vUVW s
   \<and> vPQR (SetVState quat_of s VState) = vPQR s
   \<and> qAttitudeLocal (SetVState quat_of s VState) = qAttitudeLocal s
   \<and> qAttitudeECI (SetVState quat_of s VState) = qAttitudeECI s
   \<and> vPQRi (SetVState quat_of s VState) = vPQRi VState
   \<and> vInertialVelocity (SetVState quat_of s VState) = vInertialVelocity VState
   \<and> vInertialPosition (SetVState quat_of s VState) = vInertialPosition VState"
  by (simp add: SetVState_def Let_def)

subsection \<open>The radius\<close>

text \<open>
  C9. \<^verbatim>\<open>GetRadius()\<close> never returns zero: it returns 1.0 when the stored radius is
  zero and the stored radius otherwise. Hence the denominator \<open>r * r\<close> that
  \<^verbatim>\<open>GetGAccel\<close> forms from it is never zero either.
\<close>

theorem GetRadius_never_zero:
  "GetRadius VState \<noteq> 0
   \<and> (loc_Radius (vLocation VState) = 0 \<longrightarrow> GetRadius VState = 1.0)
   \<and> (loc_Radius (vLocation VState) \<noteq> 0 \<longrightarrow> GetRadius VState = loc_Radius (vLocation VState))
   \<and> GetRadius VState * GetRadius VState \<noteq> 0"
  by (simp add: GetRadius_def)

theorem GetRadius_never_zero_witness:
  "loc_Radius (vLocation (at_rest 0)) = 0 \<and> GetRadius (at_rest 0) = 1
   \<and> loc_Radius (vLocation (at_rest 20925650)) \<noteq> 0 \<and> GetRadius (at_rest 20925650) = 20925650"
  using GetRadius_never_zero [of "at_rest 0"] GetRadius_never_zero [of "at_rest 20925650"]
  by (simp add: at_rest_def)

subsection \<open>Writing one component\<close>

lemma word_1_to_3:
  fixes i :: "32 word"
  assumes "1 \<le> i" "i \<le> 3"
  shows "i = 1 \<or> i = 2 \<or> i = 3"
proof -
  have "1 \<le> unat i" "unat i \<le> 3"
    using assms by (simp_all add: word_le_nat_alt)
  then have "unat i = 1 \<or> unat i = 2 \<or> unat i = 3"
    by arith
  then show ?thesis
    unfolding word_unat_eq_iff by simp
qed

lemma assign_Entry_in_range:
  assumes "1 \<le> i" "i \<le> 3"
  shows "assign_Entry i val v =
           Some (if i = 1 then v\<lparr>d1 := val\<rparr> else if i = 2 then v\<lparr>d2 := val\<rparr> else v\<lparr>d3 := val\<rparr>)"
  using word_1_to_3 [OF assms] by (auto simp: assign_Entry_def)

text \<open>
  C10. For an index \<open>i\<close> outside \<open>1..3\<close>, \<^verbatim>\<open>SetPQR(i, v)\<close> and \<^verbatim>\<open>SetUVW(i, v)\<close> return
  the vehicle state unchanged. For \<open>i\<close> in \<open>1..3\<close> the new state differs from the old
  one in the vector \<^verbatim>\<open>vPQR\<close> (or \<^verbatim>\<open>vUVW\<close>) only, and that vector in its component \<open>i\<close>
  only, which is \<open>v\<close>. No index makes either function write outside the vector
  (the result is never \<open>None\<close>).
\<close>

theorem SetPQR_SetUVW_guarded:
  "(\<not> (1 \<le> i \<and> i \<le> 3) \<longrightarrow>
      SetPQR i val VState = Some VState \<and> SetUVW i val VState = Some VState)
   \<and> (1 \<le> i \<and> i \<le> 3 \<longrightarrow>
        SetPQR i val VState =
          Some (VState\<lparr>vPQR := (if i = 1 then (vPQR VState)\<lparr>d1 := val\<rparr>
                                 else if i = 2 then (vPQR VState)\<lparr>d2 := val\<rparr>
                                 else (vPQR VState)\<lparr>d3 := val\<rparr>)\<rparr>)
        \<and> SetUVW i val VState =
          Some (VState\<lparr>vUVW := (if i = 1 then (vUVW VState)\<lparr>d1 := val\<rparr>
                                 else if i = 2 then (vUVW VState)\<lparr>d2 := val\<rparr>
                                 else (vUVW VState)\<lparr>d3 := val\<rparr>)\<rparr>))
   \<and> SetPQR i val VState \<noteq> None \<and> SetUVW i val VState \<noteq> None"
proof -
  have out: "SetPQR i val VState = Some VState \<and> SetUVW i val VState = Some VState"
    if "\<not> (1 \<le> i \<and> i \<le> 3)"
    unfolding SetPQR_def SetUVW_def by (simp only: that if_False simp_thms)
  have inr: "SetPQR i val VState =
          Some (VState\<lparr>vPQR := (if i = 1 then (vPQR VState)\<lparr>d1 := val\<rparr>
                                 else if i = 2 then (vPQR VState)\<lparr>d2 := val\<rparr>
                                 else (vPQR VState)\<lparr>d3 := val\<rparr>)\<rparr>)
        \<and> SetUVW i val VState =
          Some (VState\<lparr>vUVW := (if i = 1 then (vUVW VState)\<lparr>d1 := val\<rparr>
                                 else if i = 2 then (vUVW VState)\<lparr>d2 := val\<rparr>
                                 else (vUVW VState)\<lparr>d3 := val\<rparr>)\<rparr>)"
    if "1 \<le> i \<and> i \<le> 3"
    using that by (simp add: SetPQR_def SetUVW_def assign_Entry_in_range)
  have defined: "SetPQR i val VState \<noteq> None \<and> SetUVW i val VState \<noteq> None"
  proof (cases "1 \<le> i \<and> i \<le> 3")
    case True
    from inr [OF True] show ?thesis by (simp only: option.distinct simp_thms)
  next
    case False
    from out [OF False] show ?thesis by (simp only: option.distinct simp_thms)
  qed
  show ?thesis
    using out inr defined by blast
qed

theorem SetPQR_SetUVW_guarded_witness:
  "\<not> (1 \<le> (4::32 word) \<and> (4::32 word) \<le> 3) \<and> SetPQR 4 9 (at_rest 7) = Some (at_rest 7)
   \<and> \<not> (1 \<le> (0::32 word) \<and> (0::32 word) \<le> 3) \<and> SetUVW 0 9 (at_rest 7) = Some (at_rest 7)
   \<and> (1 \<le> (2::32 word) \<and> (2::32 word) \<le> 3)
   \<and> SetPQR 2 9 (at_rest 7) = Some ((at_rest 7)\<lparr>vPQR := FGColumnVector3_of 0 9 0\<rparr>)
   \<and> SetUVW 2 9 (at_rest 7) = Some ((at_rest 7)\<lparr>vUVW := FGColumnVector3_of 0 9 0\<rparr>)"
proof -
  have a: "\<not> (1 \<le> (4::32 word) \<and> (4::32 word) \<le> 3)" by simp
  have b: "\<not> (1 \<le> (0::32 word) \<and> (0::32 word) \<le> 3)" by simp
  have c: "1 \<le> (2::32 word) \<and> (2::32 word) \<le> 3" by simp
  have v: "vPQR (at_rest 7) = FGColumnVector3_of 0 0 0" "vUVW (at_rest 7) = FGColumnVector3_of 0 0 0"
    by (simp_all add: at_rest_def)
  show ?thesis
    using a b c SetPQR_SetUVW_guarded [of 4 9 "at_rest 7"] SetPQR_SetUVW_guarded [of 0 9 "at_rest 7"]
      SetPQR_SetUVW_guarded [of 2 9 "at_rest 7"]
    by (simp add: v FGColumnVector3_of_def)
qed

section \<open>Gravitation and the rotation angle\<close>

subsection \<open>Inverse-square gravity\<close>

text \<open>
  C5. \<^verbatim>\<open>GetGAccel(r)\<close> returns \<open>GM / r\<^sup>2\<close>. The constructor sets
  \<open>GM = 14.07644180e15\<close> and the reference radius \<open>20925650.00\<close>, and at that radius
  the value returned is within one percent of \<open>32.17\<close>.
\<close>

theorem GetGAccel_inverse_square:
  "GetGAccel this r = GM this / r\<^sup>2
   \<and> GM (FGInertial_new base) = 14.07644180 * 10 ^ 15
   \<and> RadiusReference (FGInertial_new base) = 20925650.00
   \<and> \<bar>GetGAccel (FGInertial_new base) 20925650.00 - 32.17\<bar> \<le> 0.01 * 32.17"
  by (simp add: GetGAccel_def FGInertial_new_def Let_def power2_eq_square)

subsection \<open>Oblate-Earth gravity\<close>

text \<open>
  C4. \<^verbatim>\<open>GetGravityJ2(p)\<close> returns, with no transformation applied to it, the vector
  whose component \<open>i\<close> is \<open>- (GM/r\<^sup>2) (1 + 1.5 J2 (a/r)\<^sup>2 k\<^sub>i) p\<^sub>i / r\<close>, where \<open>r\<close> is the
  length of \<open>p\<close>, \<open>k\<^sub>x = k\<^sub>y = 1 - 5 sin\<^sup>2 lat\<close>, \<open>k\<^sub>z = 3 - 5 sin\<^sup>2 lat\<close> and \<open>lat\<close> is the
  latitude of the propagation state.
\<close>

theorem GetGravityJ2_components:
  "GetGravityJ2 this Propagate p =
     (let r = Magnitude p;
          lat = GetLatitude Propagate;
          k_xy = 1 - 5 * (sin lat)\<^sup>2;
          k_z = 3 - 5 * (sin lat)\<^sup>2
      in \<lparr>d1 = - (GM this / r\<^sup>2) * (1 + 1.5 * J2 this * (semimajor_a this / r)\<^sup>2 * k_xy) * d1 p / r,
          d2 = - (GM this / r\<^sup>2) * (1 + 1.5 * J2 this * (semimajor_a this / r)\<^sup>2 * k_xy) * d2 p / r,
          d3 = - (GM this / r\<^sup>2) * (1 + 1.5 * J2 this * (semimajor_a this / r)\<^sup>2 * k_z) * d3 p / r\<rparr>)
   \<and> Magnitude p = sqrt ((d1 p)\<^sup>2 + (d2 p)\<^sup>2 + (d3 p)\<^sup>2)
   \<and> GetLatitude Propagate = loc_Latitude (vLocation Propagate)"
  by (simp add: GetGravityJ2_def Magnitude_def GetLatitude_def Let_def power2_eq_square mult.assoc)

subsection \<open>A skipped step\<close>

text \<open>
  C8. When the base-class \<^verbatim>\<open>Run\<close> reports nothing to do, or the executive is
  holding, \<^verbatim>\<open>FGInertial::Run\<close> returns at once: the object is as the base-class call
  left it, no hook has run, and in particular \<^verbatim>\<open>gAccel\<close> and \<^verbatim>\<open>earthPosAngle\<close> are
  unchanged. The value returned is the one the base class reported.
\<close>

theorem Run_skipped_changes_nothing:
  assumes "fst (FGModel_Run ops (model this)) \<or> Holding FDMExec"
  shows "snd (FGInertial_Run ops FDMExec Propagate this)
           = this\<lparr>model := snd (FGModel_Run ops (model this))\<rparr>
       \<and> gAccel (snd (FGInertial_Run ops FDMExec Propagate this)) = gAccel this
       \<and> earthPosAngle (snd (FGInertial_Run ops FDMExec Propagate this)) = earthPosAngle this
       \<and> fst (FGInertial_Run ops FDMExec Propagate this) = fst (FGModel_Run ops (model this))"
  using assms by (auto simp: FGInertial_Run_def Let_def split: prod.splits)

theorem Run_skipped_changes_nothing_witness:
  "fst (FGModel_Run frozen_model (model (FGInertial_new ())))
   \<and> snd (FGInertial_Run frozen_model \<lparr>Holding = False, GetDeltaT = 1\<rparr> (at_rest 0) (FGInertial_new ()))
        = FGInertial_new ()
   \<and> Holding \<lparr>Holding = True, GetDeltaT = 1\<rparr>
   \<and> snd (FGInertial_Run always_runs \<lparr>Holding = True, GetDeltaT = 1\<rparr> (at_rest 0) (FGInertial_new ()))
        = FGInertial_new ()"
proof -
  have a: "fst (FGModel_Run frozen_model (model (FGInertial_new ())))
             \<or> Holding \<lparr>Holding = False, GetDeltaT = 1\<rparr>"
    by (simp add: frozen_model_def)
  have b: "fst (FGModel_Run always_runs (model (FGInertial_new ())))
             \<or> Holding \<lparr>Holding = True, GetDeltaT = 1\<rparr>"
    by simp
  show ?thesis
    using Run_skipped_changes_nothing [OF a, of "at_rest 0"]
      Run_skipped_changes_nothing [OF b, of "at_rest 0"]
    by (simp add: frozen_model_def)
qed

subsection \<open>The rotation angle over a history of calls\<close>

lemma Run_angle:
  "earthPosAngle (snd (FGInertial_Run ops FDMExec Propagate this)) =
     (if fst (FGModel_Run ops (model this)) \<or> Holding FDMExec then earthPosAngle this
      else earthPosAngle this + GetDeltaT FDMExec * RotationRate this)"
  by (simp add: FGInertial_Run_def Let_def split: prod.splits)

lemma Run_rate:
  "RotationRate (snd (FGInertial_Run ops FDMExec Propagate this)) = RotationRate this"
  by (simp add: FGInertial_Run_def Let_def split: prod.splits)

lemma InitModel_rate:
  "RotationRate (snd (FGInertial_InitModel ops this)) = RotationRate this"
  by (simp add: FGInertial_InitModel_def Let_def split: prod.splits)

lemma InitModel_angle:
  "earthPosAngle (snd (FGInertial_InitModel ops this)) =
     (if fst (FGModel_InitModel ops (model this)) then 0 else earthPosAngle this)"
  by (simp add: FGInertial_InitModel_def Let_def split: prod.splits)

lemma do_call_rate: "RotationRate (do_call ops c this) = RotationRate this"
  by (cases c) (simp_all add: Run_rate InitModel_rate)

lemma do_calls_rate: "RotationRate (do_calls ops cs this) = RotationRate this"
  by (induction cs arbitrary: this) (simp_all add: do_call_rate)

lemma do_calls_append: "do_calls ops (cs @ ds) this = do_calls ops ds (do_calls ops cs this)"
  by (induction cs arbitrary: this) simp_all

lemma Runs_monotone:
  assumes "only_Run ds" "\<forall>dt \<in> set (step_sizes ds). 0 \<le> dt" "0 \<le> RotationRate this"
  shows "earthPosAngle this \<le> earthPosAngle (do_calls ops ds this)"
  using assms
proof (induction ds arbitrary: this)
  case Nil
  then show ?case by simp
next
  case (Cons c ds)
  show ?case
  proof (cases c)
    case Call_InitModel
    with Cons.prems show ?thesis by simp
  next
    case (Call_Run FDMExec Propagate)
    let ?next = "snd (FGInertial_Run ops FDMExec Propagate this)"
    from Cons.prems Call_Run have dt: "0 \<le> GetDeltaT FDMExec"
      and rest: "only_Run ds" "\<forall>dt \<in> set (step_sizes ds). 0 \<le> dt"
      by simp_all
    have "0 \<le> GetDeltaT FDMExec * RotationRate this"
      using dt Cons.prems(3) by simp
    then have "earthPosAngle this \<le> earthPosAngle ?next"
      by (simp add: Run_angle)
    also have "\<dots> \<le> earthPosAngle (do_calls ops ds ?next)"
      using rest Cons.prems(3) by (intro Cons.IH) (simp_all add: Run_rate)
    finally show ?thesis
      using Call_Run by simp
  qed
qed

text \<open>
  C7, as stated, fails. Nothing in \<^verbatim>\<open>Run\<close> looks at the sign of the step size: with
  \<^verbatim>\<open>GetDeltaT()\<close> equal to \<open>-1\<close>, one \<^verbatim>\<open>Run\<close> on a freshly constructed object, neither
  frozen nor holding, takes \<^verbatim>\<open>earthPosAngle\<close> below its starting value.
\<close>

theorem Run_negative_step_decreases_angle:
  "earthPosAngle (snd (FGInertial_Run always_runs \<lparr>Holding = False, GetDeltaT = - 1\<rparr>
                     (at_rest 20925650) (FGInertial_new ())))
     < earthPosAngle (FGInertial_new ())"
  by (simp add: Run_angle always_runs_def FGInertial_new_def Let_def)

text \<open>
  C7, amended. \<^verbatim>\<open>RotationRate\<close> is the positive constant of the constructor after
  any history of \<^verbatim>\<open>InitModel\<close> and \<^verbatim>\<open>Run\<close> calls. A \<^verbatim>\<open>Run\<close> that is not skipped adds
  exactly \<^verbatim>\<open>GetDeltaT()\<close> times \<^verbatim>\<open>RotationRate\<close> to \<^verbatim>\<open>earthPosAngle\<close>, a skipped one
  leaves it alone, and \<^verbatim>\<open>InitModel\<close> sets it to zero when the base-class
  \<^verbatim>\<open>InitModel\<close> succeeds and leaves it alone otherwise. So after any history, further
  \<^verbatim>\<open>Run\<close> calls whose step sizes are not negative never decrease the angle.
\<close>

theorem earthPosAngle_monotone_for_nonnegative_steps:
  "RotationRate (do_calls ops cs (FGInertial_new base)) = 0.00007292115
   \<and> 0 < RotationRate (do_calls ops cs (FGInertial_new base))
   \<and> earthPosAngle (snd (FGInertial_Run ops FDMExec Propagate this)) =
       (if fst (FGModel_Run ops (model this)) \<or> Holding FDMExec then earthPosAngle this
        else earthPosAngle this + GetDeltaT FDMExec * RotationRate this)
   \<and> earthPosAngle (snd (FGInertial_InitModel ops this)) =
       (if fst (FGModel_InitModel ops (model this)) then 0 else earthPosAngle this)
   \<and> (only_Run ds \<and> (\<forall>dt \<in> set (step_sizes ds). 0 \<le> dt) \<longrightarrow>
        earthPosAngle (do_calls ops cs (FGInertial_new base))
          \<le> earthPosAngle (do_calls ops (cs @ ds) (FGInertial_new base)))"
proof -
  have rate: "RotationRate (do_calls ops cs (FGInertial_new base)) = 0.00007292115"
    by (simp add: do_calls_rate) (simp add: FGInertial_new_def Let_def)
  have positive: "0 < RotationRate (do_calls ops cs (FGInertial_new base))"
    by (simp add: rate)
  have mono: "earthPosAngle (do_calls ops cs (FGInertial_new base))
                \<le> earthPosAngle (do_calls ops (cs @ ds) (FGInertial_new base))"
    if "only_Run ds" "\<forall>dt \<in> set (step_sizes ds). 0 \<le> dt"
    unfolding do_calls_append using that by (intro Runs_monotone) (simp_all add: rate)
  show ?thesis
    using rate positive mono Run_angle [of ops FDMExec Propagate this]
      InitModel_angle [of ops this]
    by blast
qed

theorem earthPosAngle_monotone_for_nonnegative_steps_witness:
  "only_Run [Call_Run \<lparr>Holding = False, GetDeltaT = 2\<rparr> (at_rest 1)]
   \<and> step_sizes [Call_Run \<lparr>Holding = False, GetDeltaT = 2\<rparr> (at_rest 1)] = [2]
   \<and> earthPosAngle (do_calls always_runs
         [Call_Run \<lparr>Holding = False, GetDeltaT = 1\<rparr> (at_rest 1), Call_InitModel]
         (FGInertial_new ()))
       \<le> earthPosAngle (do_calls always_runs
            ([Call_Run \<lparr>Holding = False, GetDeltaT = 1\<rparr> (at_rest 1), Call_InitModel]
               @ [Call_Run \<lparr>Holding = False, GetDeltaT = 2\<rparr> (at_rest 1)])
            (FGInertial_new ()))"
proof -
  let ?ds = "[Call_Run \<lparr>Holding = False, GetDeltaT = 2\<rparr> (at_rest 1)]"
  have h: "only_Run ?ds \<and> (\<forall>dt \<in> set (step_sizes ?ds). 0 \<le> dt)"
    by simp
  from earthPosAngle_monotone_for_nonnegative_steps
         [of always_runs
             "[Call_Run \<lparr>Holding = False, GetDeltaT = 1\<rparr> (at_rest 1), Call_InitModel]"
             "()" _ _ _ ?ds]
  have "only_Run ?ds \<and> (\<forall>dt \<in> set (step_sizes ?ds). 0 \<le> dt) \<longrightarrow>
        earthPosAngle (do_calls always_runs
            [Call_Run \<lparr>Holding = False, GetDeltaT = 1\<rparr> (at_rest 1), Call_InitModel]
            (FGInertial_new ()))
          \<le> earthPosAngle (do_calls always_runs
               ([Call_Run \<lparr>Holding = False, GetDeltaT = 1\<rparr> (at_rest 1), Call_InitModel] @ ?ds)
               (FGInertial_new ()))"
    by blast
  moreover have "step_sizes ?ds = [2]"
    by simp
  ultimately show ?thesis
    using h by blast
qed

section \<open>The numerical Jacobian\<close>
















end
